theory Spec2Isabelle
  imports Main
begin

section \<open>The policy controller of pkg/auth/controller/policy\<close>

text \<open>
  The controller of \<^verbatim>\<open>policy_controller.go\<close> reacts to informer events by putting
  object keys on a rate-limited work queue, and its workers take keys from that queue and
  call \<^verbatim>\<open>syncItem\<close> on them. The queue, the informer, the lister and the logger are
  collaborators from other packages. The model therefore records what the controller does
  to them: every function returns, next to its Go result, the list of calls it made on the
  collaborators, in the order it made them. What a collaborator answers (the key derived
  from an object, the lister's lookup, the item handed out by the queue, whether the stop
  channel fires) is an input of the model.
\<close>

subsection \<open>Errors\<close>

text \<open>
  A Go \<^verbatim>\<open>error\<close> is \<open>None\<close> for \<^verbatim>\<open>nil\<close> and \<open>Some e\<close> otherwise. An API status
  error carries a reason; \<^verbatim>\<open>errors.IsNotFound\<close> is true exactly of a status error
  whose reason is not-found, and false of \<^verbatim>\<open>nil\<close>.
\<close>

datatype StatusReason = StatusReasonUnknown | StatusReasonNotFound
  | StatusReasonInternalError | StatusReasonTimeout

datatype error = StatusError StatusReason string | PlainError string

fun errorString :: "error \<Rightarrow> string" where
  "errorString (StatusError r m) = m"
| "errorString (PlainError m) = m"

fun IsNotFound :: "error option \<Rightarrow> bool" where
  "IsNotFound None = False"
| "IsNotFound (Some (StatusError r m)) = (r = StatusReasonNotFound)"
| "IsNotFound (Some (PlainError m)) = False"

subsection \<open>Objects\<close>

text \<open>
  \<^verbatim>\<open>v1.Policy\<close> is declared in the API package. The controller reads its \<^verbatim>\<open>UID\<close>
  (promoted from the object metadata) and its \<^verbatim>\<open>Spec\<close>; the types of the specification
  and of the status are parameters. The other metadata fields stand for the bookkeeping an
  update may change.
\<close>

record ('spec, 'status) Policy =
  Namespace :: string
  Name :: string
  UID :: string
  ResourceVersion :: string
  Spec :: 'spec
  Status :: 'status

text \<open>
  An event carries an \<^verbatim>\<open>interface{}\<close>: a policy, the informer's
  \<^verbatim>\<open>DeletedFinalStateUnknown\<close> marker (a key and the last known object), or a value of
  some other dynamic type.
\<close>

datatype ('spec, 'status) obj =
    PolicyObj "('spec, 'status) Policy"
  | DeletedFinalStateUnknown string "('spec, 'status) obj"
  | OtherObj string

text \<open>The type assertion \<^verbatim>\<open>x.(*v1.Policy)\<close> with its \<^verbatim>\<open>ok\<close> result.\<close>

fun asPolicy :: "('spec, 'status) obj \<Rightarrow> ('spec, 'status) Policy option" where
  "asPolicy (PolicyObj p) = Some p"
| "asPolicy (DeletedFinalStateUnknown k x) = None"
| "asPolicy (OtherObj t) = None"

text \<open>
  \<^verbatim>\<open>reflect.DeepEqual\<close> compares two values of one type field by field, element by
  element. On a value type without floating-point, function or cyclic components (an API
  specification is made of strings, integers, booleans, slices and maps of them, where a
  nil slice and an empty slice are different values) this is the equality of the values.
\<close>

definition DeepEqual :: "'a \<Rightarrow> 'a \<Rightarrow> bool" where
  "DeepEqual x y = (x = y)"

subsection \<open>Calls on the collaborators\<close>

datatype Level = Info | Warn | Error

text \<open>
  \<open>Log\<close> is a call of the logger with its message (the structured fields, among them the
  measured duration, are left out); \<open>HandleError\<close> is \<^verbatim>\<open>runtime.HandleError\<close>; the
  \<open>Queue\<close> constructors are the methods of \<^verbatim>\<open>workqueue.RateLimitingInterface\<close>, with
  the delay of \<^verbatim>\<open>AddAfter\<close> in nanoseconds as \<^verbatim>\<open>time.Duration\<close> has it;
  \<open>GoWaitUntilWorker d\<close> is the statement \<^verbatim>\<open>go wait.Until(c.worker, d, stopCh)\<close>;
  \<open>ReceiveStop\<close> is the receive \<^verbatim>\<open><-stopCh\<close>; \<open>WaitForCacheSync\<close> and
  \<open>HandleCrash\<close> are the calls of these names.
\<close>

datatype effect =
    Log Level string
  | HandleError "error option"
  | QueueAdd string
  | QueueAddAfter string int
  | QueueAddRateLimited string
  | QueueForget string
  | QueueGet
  | QueueDone string
  | QueueShutDown
  | WaitForCacheSync
  | GoWaitUntilWorker int
  | ReceiveStop
  | HandleCrash

fun isQueueCall :: "effect \<Rightarrow> bool" where
  "isQueueCall (QueueAdd k) = True"
| "isQueueCall (QueueAddAfter k d) = True"
| "isQueueCall (QueueAddRateLimited k) = True"
| "isQueueCall (QueueForget k) = True"
| "isQueueCall QueueGet = True"
| "isQueueCall (QueueDone k) = True"
| "isQueueCall QueueShutDown = True"
| "isQueueCall e = False"

text \<open>The calls that put a key on the queue.\<close>

fun isEnqueueCall :: "effect \<Rightarrow> bool" where
  "isEnqueueCall (QueueAdd k) = True"
| "isEnqueueCall (QueueAddAfter k d) = True"
| "isEnqueueCall (QueueAddRateLimited k) = True"
| "isEnqueueCall e = False"

subsection \<open>Constants\<close>

definition Second :: int where
  "Second = 1000000000"

definition policyDeletionGracePeriod :: int where
  "policyDeletionGracePeriod = 5 * Second"

subsection \<open>The controller\<close>

text \<open>
  Of the fields of \<^verbatim>\<open>Controller\<close> the functions below read the lister: a lookup by name
  that answers with a policy and an error, as \<^verbatim>\<open>c.lister.Get\<close> does.
\<close>

record ('spec, 'status) Controller =
  lister :: "string \<Rightarrow> ('spec, 'status) Policy option \<times> error option"

text \<open>
  \<^verbatim>\<open>needsUpdate\<close>: the change filter of update events.
\<close>

definition needsUpdate :: "('spec, 'status) Policy \<Rightarrow> ('spec, 'status) Policy \<Rightarrow> bool" where
  "needsUpdate old new =
     (if UID old \<noteq> UID new then True
      else if \<not> DeepEqual (Spec old) (Spec new) then True
      else False)"

text \<open>
  \<^verbatim>\<open>enqueue\<close>. The key function \<^verbatim>\<open>controllerutil.KeyFunc\<close> is a parameter; it answers
  with a key and an error. The message of the handled error is built from the error of the
  key function (the printed object is left out of it).
\<close>

definition enqueue ::
  "(('spec, 'status) obj \<Rightarrow> string \<times> error option) \<Rightarrow> ('spec, 'status) obj \<Rightarrow> effect list" where
  "enqueue KeyFunc ob =
     (case KeyFunc ob of
        (key, Some err) \<Rightarrow>
          [HandleError (Some (PlainError (''couldn't get key for object: '' @ errorString err)))]
      | (key, None) \<Rightarrow> [QueueAddAfter key policyDeletionGracePeriod])"

text \<open>
  The handlers registered by \<^verbatim>\<open>NewController\<close>: no \<^verbatim>\<open>AddFunc\<close> (the line is commented
  out, and a handler that is not set does nothing), the filtered \<^verbatim>\<open>UpdateFunc\<close>, and
  \<^verbatim>\<open>enqueue\<close> itself as \<^verbatim>\<open>DeleteFunc\<close>.
\<close>

definition UpdateFunc ::
  "(('spec, 'status) obj \<Rightarrow> string \<times> error option) \<Rightarrow>
   ('spec, 'status) obj \<Rightarrow> ('spec, 'status) obj \<Rightarrow> effect list" where
  "UpdateFunc KeyFunc oldObj newObj =
     (case (asPolicy oldObj, asPolicy newObj) of
        (Some old, Some cur) \<Rightarrow>
          (if needsUpdate old cur
           then Log Info ''Update enqueue'' # enqueue KeyFunc newObj
           else [])
      | _ \<Rightarrow> [])"

definition DeleteFunc ::
  "(('spec, 'status) obj \<Rightarrow> string \<times> error option) \<Rightarrow> ('spec, 'status) obj \<Rightarrow> effect list" where
  "DeleteFunc KeyFunc ob = enqueue KeyFunc ob"

datatype ('spec, 'status) event =
    OnAdd "('spec, 'status) obj"
  | OnUpdate "('spec, 'status) obj" "('spec, 'status) obj"
  | OnDelete "('spec, 'status) obj"

fun handleEvent ::
  "(('spec, 'status) obj \<Rightarrow> string \<times> error option) \<Rightarrow> ('spec, 'status) event \<Rightarrow> effect list" where
  "handleEvent KeyFunc (OnAdd ob) = []"
| "handleEvent KeyFunc (OnUpdate oldObj newObj) = UpdateFunc KeyFunc oldObj newObj"
| "handleEvent KeyFunc (OnDelete ob) = DeleteFunc KeyFunc ob"

text \<open>
  \<^verbatim>\<open>syncItem\<close>. The key splitter \<^verbatim>\<open>cache.SplitMetaNamespaceKey\<close> is a parameter; it
  answers with a namespace, a name and an error. The deferred log call runs when the
  function returns, after the calls of the body. The result is the Go pair
  \<^verbatim>\<open>(bool, error)\<close>.
\<close>

definition syncItem ::
  "(string \<Rightarrow> string \<times> string \<times> error option) \<Rightarrow> ('spec, 'status) Controller \<Rightarrow> string \<Rightarrow>
   (bool \<times> error option) \<times> effect list" where
  "syncItem splitKey c key =
     (let finished = Log Info ''Finished syncing policy'' in
      case splitKey key of
        (ns, name, Some err) \<Rightarrow> ((False, Some err), [finished])
      | (ns, name, None) \<Rightarrow>
          (case lister c name of
             (policy, err) \<Rightarrow>
               if IsNotFound err then
                 ((False, None), [Log Info (''Api key has been deleted '' @ key), finished])
               else if err \<noteq> None then
                 ((False, None), [Log Warn ''Unable to retrieve policy from store'', finished])
               else
                 ((False, None), [Log Info ''Create policy'', finished])))"

text \<open>
  \<^verbatim>\<open>workFunc\<close>, the body of one round of a worker. The answer of \<^verbatim>\<open>c.queue.Get()\<close>,
  a key and the quit flag, is the argument \<open>got\<close>. The sync function is the argument
  \<open>sync\<close>, so that the round is defined for every result a sync function can give; the
  controller's own round passes \<^verbatim>\<open>c.syncItem\<close>. The deferred \<^verbatim>\<open>Done\<close> runs last.
\<close>

definition workFuncWith ::
  "(string \<Rightarrow> (bool \<times> error option) \<times> effect list) \<Rightarrow> string \<times> bool \<Rightarrow> bool \<times> effect list" where
  "workFuncWith sync got =
     (case got of
        (key, quit) \<Rightarrow>
          if quit then (True, [QueueGet])
          else
            (case sync key of
               ((requeue, err), effs) \<Rightarrow>
                 if err = None \<and> \<not> requeue then
                   (False, QueueGet # effs @ [QueueForget key, QueueDone key])
                 else
                   (False,
                    QueueGet # effs @ [QueueAddRateLimited key, HandleError err, QueueDone key])))"

text \<open>
  \<^verbatim>\<open>worker\<close>: the loop that repeats the round until it reports quit. The list \<open>gets\<close>
  holds the answers the queue gives to this worker, in order. When the answers are used up
  the next \<^verbatim>\<open>Get\<close> blocks, and the worker has not returned: the first component of the
  result says whether the worker returned.
\<close>

fun workerWith ::
  "(string \<Rightarrow> (bool \<times> error option) \<times> effect list) \<Rightarrow> (string \<times> bool) list \<Rightarrow> bool \<times> effect list" where
  "workerWith sync [] = (False, [QueueGet])"
| "workerWith sync (got # gets) =
     (case workFuncWith sync got of
        (quit, effs) \<Rightarrow>
          if quit then (True, effs)
          else (case workerWith sync gets of (returned, effs') \<Rightarrow> (returned, effs @ effs')))"

definition workFunc ::
  "(string \<Rightarrow> string \<times> string \<times> error option) \<Rightarrow> ('spec, 'status) Controller \<Rightarrow>
   string \<times> bool \<Rightarrow> bool \<times> effect list" where
  "workFunc splitKey c got = workFuncWith (syncItem splitKey c) got"

definition worker ::
  "(string \<Rightarrow> string \<times> string \<times> error option) \<Rightarrow> ('spec, 'status) Controller \<Rightarrow>
   (string \<times> bool) list \<Rightarrow> bool \<times> effect list" where
  "worker splitKey c gets = workerWith (syncItem splitKey c) gets"

text \<open>
  \<^verbatim>\<open>Run\<close>. The loop \<^verbatim>\<open>for i := 0; i < workers; i++\<close> starts one goroutine per
  iteration. \<open>waitAnswer\<close> is the answer of \<^verbatim>\<open>cache.WaitForCacheSync\<close>, \<open>None\<close>
  when that call never returns (it polls until the cache has synced or the stop channel is
  closed), and \<open>stopFires\<close> says whether the stop channel ever delivers: if it does not,
  \<^verbatim>\<open>Run\<close> stays in the receive and does not return. The deferred calls run in reverse
  order of their \<^verbatim>\<open>defer\<close> statements. The first component of the result says
  whether \<^verbatim>\<open>Run\<close> returned.
\<close>

function startWorkers :: "int \<Rightarrow> int \<Rightarrow> effect list" where
  "startWorkers i workers =
     (if i < workers then GoWaitUntilWorker Second # startWorkers (i + 1) workers else [])"
  by pat_completeness auto
termination
  by (relation "measure (\<lambda>(i, workers). nat (workers - i))") auto

declare startWorkers.simps [simp del]

definition Run :: "int \<Rightarrow> bool option \<Rightarrow> bool \<Rightarrow> bool \<times> effect list" where
  "Run workers waitAnswer stopFires =
     (let started = [Log Info ''Starting project controller'', WaitForCacheSync] in
      case waitAnswer of
        None \<Rightarrow> (False, started)
      | Some ok \<Rightarrow>
          (let waited = (if \<not> ok then [Log Error ''Failed to wait for project caches to sync'']
                         else []);
               running = started @ waited @ startWorkers 0 workers @ [ReceiveStop]
           in if stopFires then
                (True, running @ [Log Info ''Shutting down project controller'', QueueShutDown,
                                  HandleCrash])
              else (False, running)))"

subsection \<open>Collaborators for concrete runs\<close>

text \<open>
  \<^verbatim>\<open>strings.Split(key, "/")\<close>, and \<^verbatim>\<open>cache.SplitMetaNamespaceKey\<close> of the client
  library on top of it: one part is a name without namespace, two parts are namespace and
  name, anything else is an error.
\<close>

fun splitSlash :: "string \<Rightarrow> string list" where
  "splitSlash [] = [[]]"
| "splitSlash (ch # cs) =
     (if ch = CHR ''/'' then [] # splitSlash cs
      else (case splitSlash cs of
              [] \<Rightarrow> [[ch]]
            | part # parts \<Rightarrow> (ch # part) # parts))"

definition SplitMetaNamespaceKey :: "string \<Rightarrow> string \<times> string \<times> error option" where
  "SplitMetaNamespaceKey key =
     (case splitSlash key of
        [name] \<Rightarrow> ('''', name, None)
      | [ns, name] \<Rightarrow> (ns, name, None)
      | _ \<Rightarrow> ('''', '''', Some (PlainError (''unexpected key format: '' @ key))))"

text \<open>
  Modelled from the spec: \<^verbatim>\<open>controllerutil.KeyFunc\<close> is declared in
  \<^verbatim>\<open>pkg/controller\<close>, which is not among the sources at hand. The spec derives the key
  from the object's identity, \<^verbatim>\<open>namespace/name\<close>, and lets the derivation fail on a
  malformed object reference; the deletion marker carries its key. The theorems below take
  the key function as a parameter; this one serves the concrete runs.
\<close>

fun KeyFuncModel :: "('spec, 'status) obj \<Rightarrow> string \<times> error option" where
  "KeyFuncModel (DeletedFinalStateUnknown k x) = (k, None)"
| "KeyFuncModel (PolicyObj p) =
     (if Namespace p \<noteq> [] then (Namespace p @ ''/'' @ Name p, None) else (Name p, None))"
| "KeyFuncModel (OtherObj t) = ('''', Some (PlainError ''object has no meta''))"

definition examplePolicy :: "(string list, string) Policy" where
  "examplePolicy =
     \<lparr>Namespace = '''', Name = ''p'', UID = ''u1'', ResourceVersion = ''1'',
      Spec = [''read''], Status = ''active''\<rparr>"

definition exampleLister :: "string \<Rightarrow> (string list, string) Policy option \<times> error option" where
  "exampleLister name =
     (if name = ''p'' then (Some examplePolicy, None)
      else if name = ''broken'' then
        (None, Some (StatusError StatusReasonInternalError ''store unavailable''))
      else (None, Some (StatusError StatusReasonNotFound ''policy not found'')))"

definition exampleController :: "(string list, string) Controller" where
  "exampleController = \<lparr>lister = exampleLister\<rparr>"

text \<open>A sync function that asks for a requeue without an error.\<close>

definition requeueSync :: "string \<Rightarrow> (bool \<times> error option) \<times> effect list" where
  "requeueSync key = ((True, None), [])"

section \<open>Properties\<close>

subsection \<open>The change filter\<close>

text \<open>
  C1. \<^verbatim>\<open>needsUpdate old new\<close> is true if and only if the UIDs of the two objects differ
  or their specifications differ under the deep comparison. In particular it is false
  whenever only the status and the bookkeeping metadata changed.
\<close>

theorem needsUpdate_iff:
  "needsUpdate old new = (UID old \<noteq> UID new \<or> \<not> DeepEqual (Spec old) (Spec new))
   \<and> DeepEqual (Spec old) (Spec new) = (Spec old = Spec new)
   \<and> \<not> needsUpdate old (old\<lparr>ResourceVersion := rv, Status := st\<rparr>)"
  by (simp add: needsUpdate_def DeepEqual_def)

theorem needsUpdate_iff_witness:
  "needsUpdate examplePolicy (examplePolicy\<lparr>UID := ''u2''\<rparr>)
   \<and> needsUpdate examplePolicy (examplePolicy\<lparr>Spec := [''read'', ''write'']\<rparr>)
   \<and> \<not> needsUpdate examplePolicy (examplePolicy\<lparr>ResourceVersion := ''2'', Status := ''idle''\<rparr>)"
  using needsUpdate_iff [of examplePolicy "examplePolicy\<lparr>UID := ''u2''\<rparr>"]
    needsUpdate_iff [of examplePolicy "examplePolicy\<lparr>Spec := [''read'', ''write'']\<rparr>"]
    needsUpdate_iff [of examplePolicy examplePolicy "''2''" "''idle''"]
  by (simp add: examplePolicy_def)

subsection \<open>Shared facts\<close>

lemma enqueue_ok:
  "snd (KeyFunc ob) = None \<Longrightarrow>
   enqueue KeyFunc ob = [QueueAddAfter (fst (KeyFunc ob)) policyDeletionGracePeriod]"
  by (cases "KeyFunc ob") (simp add: enqueue_def)

lemma enqueue_failed:
  "snd (KeyFunc ob) = Some err \<Longrightarrow>
   enqueue KeyFunc ob =
     [HandleError (Some (PlainError (''couldn't get key for object: '' @ errorString err)))]"
  by (cases "KeyFunc ob") (simp add: enqueue_def)

lemma gracePeriod_value: "policyDeletionGracePeriod = 5000000000"
  by (simp add: policyDeletionGracePeriod_def Second_def)

lemma enqueue_calls:
  "e \<in> set (enqueue KeyFunc ob) \<Longrightarrow>
   (\<exists>k. e = QueueAddAfter k policyDeletionGracePeriod) \<or> (\<exists>x. e = HandleError x)"
  by (cases "KeyFunc ob"; cases "snd (KeyFunc ob)") (auto simp: enqueue_def)

lemma handleEvent_calls:
  "e \<in> set (handleEvent KeyFunc ev) \<Longrightarrow>
   (\<exists>k. e = QueueAddAfter k policyDeletionGracePeriod) \<or> (\<exists>x. e = HandleError x)
   \<or> e = Log Info ''Update enqueue''"
proof (cases ev)
  case (OnAdd ob)
  assume "e \<in> set (handleEvent KeyFunc ev)"
  with OnAdd show ?thesis by simp
next
  case (OnUpdate oldObj newObj)
  assume "e \<in> set (handleEvent KeyFunc ev)"
  with OnUpdate have "e = Log Info ''Update enqueue'' \<or> e \<in> set (enqueue KeyFunc newObj)"
    by (auto simp: UpdateFunc_def split: option.splits if_splits)
  then show ?thesis using enqueue_calls [of e KeyFunc newObj] by blast
next
  case (OnDelete ob)
  assume "e \<in> set (handleEvent KeyFunc ev)"
  with OnDelete have "e \<in> set (enqueue KeyFunc ob)" by (simp add: DeleteFunc_def)
  then show ?thesis using enqueue_calls [of e KeyFunc ob] by blast
qed

lemma syncItem_result:
  "fst (syncItem splitKey c key) =
     (False, case splitKey key of (ns, name, err) \<Rightarrow> err)"
  by (cases "splitKey key"; cases "lister c (fst (snd (splitKey key)))")
     (auto simp: syncItem_def Let_def split: option.splits)

lemma syncItem_logs_only:
  "e \<in> set (snd (syncItem splitKey c key)) \<Longrightarrow> \<exists>l m. e = Log l m"
  by (cases "splitKey key"; cases "lister c (fst (snd (splitKey key)))")
     (auto simp: syncItem_def Let_def split: option.splits if_splits)

lemma workFuncWith_quit: "workFuncWith sync (key, True) = (True, [QueueGet])"
  by (simp add: workFuncWith_def)

lemma workFuncWith_round:
  "sync key = ((requeue, err), effs) \<Longrightarrow>
   workFuncWith sync (key, False) =
     (False, QueueGet # effs
        @ (if err = None \<and> \<not> requeue then [QueueForget key]
           else [QueueAddRateLimited key, HandleError err])
        @ [QueueDone key])"
  by (simp add: workFuncWith_def)

lemma workerWith_append:
  "\<forall>g\<in>set pre. \<not> snd g \<Longrightarrow>
   workerWith sync (pre @ rest) =
     (fst (workerWith sync rest),
      concat (map (\<lambda>g. snd (workFuncWith sync g)) pre) @ snd (workerWith sync rest))"
proof (induction pre)
  case Nil
  then show ?case by simp
next
  case (Cons g pre)
  obtain key quit where g: "g = (key, quit)" by (cases g)
  with Cons.prems have nq: "\<not> quit" by simp
  obtain requeue err effs where s: "sync key = ((requeue, err), effs)"
    by (metis prod.exhaust)
  have "fst (workFuncWith sync g) = False"
    using workFuncWith_round [of sync key requeue err effs] s g nq by simp
  moreover have "workerWith sync (pre @ rest) =
     (fst (workerWith sync rest),
      concat (map (\<lambda>g. snd (workFuncWith sync g)) pre) @ snd (workerWith sync rest))"
    using Cons by simp
  ultimately show ?case
    by (cases "workFuncWith sync g") simp
qed

lemma startWorkers_replicate:
  "startWorkers i workers = replicate (nat (workers - i)) (GoWaitUntilWorker Second)"
proof (induction i workers rule: startWorkers.induct)
  case (1 i workers)
  show ?case
  proof (cases "i < workers")
    case True
    then have "nat (workers - i) = Suc (nat (workers - (i + 1)))" by simp
    with True "1" show ?thesis by (subst startWorkers.simps) simp
  next
    case False
    then show ?thesis by (subst startWorkers.simps) simp
  qed
qed


lemma workerWith_no_Add:
  "(\<And>key. QueueAdd k \<notin> set (snd (sync key))) \<Longrightarrow> QueueAdd k \<notin> set (snd (workerWith sync gets))"
proof (induction gets)
  case Nil
  then show ?case by simp
next
  case (Cons g gets)
  obtain key quit where g: "g = (key, quit)" by (cases g)
  obtain requeue err effs where s: "sync key = ((requeue, err), effs)"
    by (metis prod.exhaust)
  have effs: "QueueAdd k \<notin> set effs" using Cons.prems [of key] s by simp
  have ih: "QueueAdd k \<notin> set (snd (workerWith sync gets))" using Cons by simp
  show ?case
  proof (cases quit)
    case True
    then show ?thesis using g by (simp add: workFuncWith_quit)
  next
    case False
    then show ?thesis
      using g effs ih workFuncWith_round [of sync key requeue err effs] s
      by (cases "workerWith sync gets") (simp split: if_splits)
  qed
qed

subsection \<open>The sync function\<close>

text \<open>
  C2. The claim is that a lookup failing with an error other than not-found makes
  \<^verbatim>\<open>syncItem\<close> return that error. The code does not: at the key \<open>broken\<close>, whose
  lookup fails with an internal error, \<^verbatim>\<open>syncItem\<close> logs a warning and returns
  \<^verbatim>\<open>(false, nil)\<close>, and the worker's round forgets the key instead of requeueing it.
\<close>

theorem syncItem_drops_store_error:
  "lister exampleController ''broken'' =
     (None, Some (StatusError StatusReasonInternalError ''store unavailable''))
   \<and> \<not> IsNotFound (snd (lister exampleController ''broken''))
   \<and> syncItem SplitMetaNamespaceKey exampleController ''broken'' =
       ((False, None),
        [Log Warn ''Unable to retrieve policy from store'', Log Info ''Finished syncing policy''])
   \<and> workFunc SplitMetaNamespaceKey exampleController (''broken'', False) =
       (False,
        [QueueGet, Log Warn ''Unable to retrieve policy from store'',
         Log Info ''Finished syncing policy'', QueueForget ''broken'', QueueDone ''broken''])"
  by (simp add: workFunc_def workFuncWith_def syncItem_def SplitMetaNamespaceKey_def
      exampleController_def exampleLister_def)

text \<open>
  C5. When the key splits and the lister reports not-found for the name, \<^verbatim>\<open>syncItem\<close>
  logs that the object has been deleted and returns \<^verbatim>\<open>(false, nil)\<close>: no error and no
  requeue.
\<close>

theorem syncItem_not_found:
  "splitKey key = (ns, name, None) \<Longrightarrow> IsNotFound (snd (lister c name)) \<Longrightarrow>
   syncItem splitKey c key =
     ((False, None),
      [Log Info (''Api key has been deleted '' @ key), Log Info ''Finished syncing policy''])"
  by (cases "lister c name") (simp add: syncItem_def)

theorem syncItem_not_found_witness:
  "SplitMetaNamespaceKey ''gone'' = ('''', ''gone'', None)
   \<and> IsNotFound (snd (lister exampleController ''gone''))
   \<and> syncItem SplitMetaNamespaceKey exampleController ''gone'' =
       ((False, None),
        [Log Info ''Api key has been deleted gone'', Log Info ''Finished syncing policy''])"
proof -
  have k: "SplitMetaNamespaceKey ''gone'' = ('''', ''gone'', None)"
    by (simp add: SplitMetaNamespaceKey_def)
  have n: "IsNotFound (snd (lister exampleController ''gone''))"
    by (simp add: exampleController_def exampleLister_def)
  show ?thesis
    using k n syncItem_not_found [of SplitMetaNamespaceKey "''gone''" "''''" "''gone''" exampleController]
    by simp
qed

text \<open>
  C10. \<^verbatim>\<open>syncItem\<close> never asks for a requeue. The error it returns is the error of the
  key splitter: for a key the splitter accepts the result is \<^verbatim>\<open>(false, nil)\<close> whatever
  the lister answers, and a non-nil error comes from a failed split only.
\<close>

theorem syncItem_result_from_split:
  "fst (fst (syncItem splitKey c key)) = False
   \<and> snd (fst (syncItem splitKey c key)) = snd (snd (splitKey key))
   \<and> (snd (snd (splitKey key)) = None \<longrightarrow> fst (syncItem splitKey c key) = (False, None))
   \<and> (snd (fst (syncItem splitKey c key)) \<noteq> None \<longrightarrow> snd (snd (splitKey key)) \<noteq> None)"
  by (cases "splitKey key") (simp add: syncItem_result)

theorem syncItem_result_from_split_witness:
  "fst (syncItem SplitMetaNamespaceKey exampleController ''p'') = (False, None)
   \<and> fst (syncItem SplitMetaNamespaceKey exampleController ''broken'') = (False, None)
   \<and> fst (syncItem SplitMetaNamespaceKey exampleController ''gone'') = (False, None)
   \<and> fst (syncItem SplitMetaNamespaceKey exampleController ''a/b/c'') =
       (False, Some (PlainError ''unexpected key format: a/b/c''))"
proof -
  have ok: "snd (snd (SplitMetaNamespaceKey ''p'')) = None"
    "snd (snd (SplitMetaNamespaceKey ''broken'')) = None"
    "snd (snd (SplitMetaNamespaceKey ''gone'')) = None"
    by (simp_all add: SplitMetaNamespaceKey_def)
  have bad: "snd (snd (SplitMetaNamespaceKey ''a/b/c'')) =
      Some (PlainError ''unexpected key format: a/b/c'')"
    by (simp add: SplitMetaNamespaceKey_def)
  have r1: "fst (syncItem SplitMetaNamespaceKey exampleController ''p'') = (False, None)"
    using ok(1) syncItem_result_from_split [of SplitMetaNamespaceKey exampleController "''p''"]
    by blast
  have r2: "fst (syncItem SplitMetaNamespaceKey exampleController ''broken'') = (False, None)"
    using ok(2)
      syncItem_result_from_split [of SplitMetaNamespaceKey exampleController "''broken''"]
    by blast
  have r3: "fst (syncItem SplitMetaNamespaceKey exampleController ''gone'') = (False, None)"
    using ok(3) syncItem_result_from_split [of SplitMetaNamespaceKey exampleController "''gone''"]
    by blast
  have "fst (fst (syncItem SplitMetaNamespaceKey exampleController ''a/b/c'')) = False
    \<and> snd (fst (syncItem SplitMetaNamespaceKey exampleController ''a/b/c'')) =
      Some (PlainError ''unexpected key format: a/b/c'')"
    using bad syncItem_result_from_split [of SplitMetaNamespaceKey exampleController "''a/b/c''"]
    by metis
  then have r4: "fst (syncItem SplitMetaNamespaceKey exampleController ''a/b/c'') =
      (False, Some (PlainError ''unexpected key format: a/b/c''))"
    by (metis prod.collapse)
  show ?thesis using r1 r2 r3 r4 by blast
qed


subsection \<open>The worker\<close>

text \<open>
  C3. For every key a worker takes from the queue (the rounds before it did not quit), the
  worker calls the sync function on the key and then calls \<^verbatim>\<open>Forget\<close> exactly when
  the error is nil and requeue is false, and \<^verbatim>\<open>AddRateLimited\<close> (followed by
  \<^verbatim>\<open>HandleError\<close>) in every other case; \<^verbatim>\<open>Done\<close> on the key comes after either, and
  the worker goes on with the next answer of the queue. The controller's worker is this
  loop with \<^verbatim>\<open>syncItem\<close> as the sync function.
\<close>

theorem worker_forget_or_requeue:
  assumes "\<forall>g\<in>set pre. \<not> snd g" and "sync key = ((requeue, err), effs)"
  shows "snd (workerWith sync (pre @ (key, False) # rest)) =
           concat (map (\<lambda>g. snd (workFuncWith sync g)) pre)
           @ [QueueGet] @ effs
           @ (if err = None \<and> \<not> requeue then [QueueForget key]
              else [QueueAddRateLimited key, HandleError err])
           @ [QueueDone key]
           @ snd (workerWith sync rest)
         \<and> worker splitKey c gets = workerWith (syncItem splitKey c) gets"
proof -
  have "workFuncWith sync (key, False) =
     (False, QueueGet # effs
        @ (if err = None \<and> \<not> requeue then [QueueForget key]
           else [QueueAddRateLimited key, HandleError err])
        @ [QueueDone key])"
    using assms(2) by (rule workFuncWith_round)
  then have "snd (workerWith sync ((key, False) # rest)) =
     [QueueGet] @ effs
     @ (if err = None \<and> \<not> requeue then [QueueForget key]
        else [QueueAddRateLimited key, HandleError err])
     @ [QueueDone key] @ snd (workerWith sync rest)"
    by (cases "workerWith sync rest") simp
  moreover have "snd (workerWith sync (pre @ (key, False) # rest)) =
     concat (map (\<lambda>g. snd (workFuncWith sync g)) pre)
     @ snd (workerWith sync ((key, False) # rest))"
    using workerWith_append [OF assms(1), of sync "(key, False) # rest"] by simp
  ultimately show ?thesis by (simp add: worker_def)
qed

theorem worker_forget_or_requeue_witness:
  "snd (workerWith requeueSync [(''a'', False), (''b'', True)]) =
     [QueueGet, QueueAddRateLimited ''a'', HandleError None, QueueDone ''a'', QueueGet]
   \<and> snd (worker SplitMetaNamespaceKey exampleController [(''p'', False), (''b'', True)]) =
     [QueueGet, Log Info ''Create policy'', Log Info ''Finished syncing policy'',
      QueueForget ''p'', QueueDone ''p'', QueueGet]
   \<and> snd (worker SplitMetaNamespaceKey exampleController [(''a/b/c'', False)]) =
     [QueueGet, Log Info ''Finished syncing policy'', QueueAddRateLimited ''a/b/c'',
      HandleError (Some (PlainError ''unexpected key format: a/b/c'')), QueueDone ''a/b/c'',
      QueueGet]"
proof -
  have s1: "requeueSync ''a'' = ((True, None), [])" by (simp add: requeueSync_def)
  have s2: "syncItem SplitMetaNamespaceKey exampleController ''p'' =
      ((False, None), [Log Info ''Create policy'', Log Info ''Finished syncing policy''])"
    by (simp add: syncItem_def SplitMetaNamespaceKey_def exampleController_def
        exampleLister_def)
  have s3: "syncItem SplitMetaNamespaceKey exampleController ''a/b/c'' =
      ((False, Some (PlainError ''unexpected key format: a/b/c'')),
       [Log Info ''Finished syncing policy''])"
    by (simp add: syncItem_def SplitMetaNamespaceKey_def)
  have q: "\<And>sync. snd (workerWith sync [(''b'', True)]) = [QueueGet]"
    by (simp add: workFuncWith_quit)
  have e: "\<And>sync. snd (workerWith sync []) = [QueueGet]" by simp
  have r1: "snd (workerWith requeueSync [(''a'', False), (''b'', True)]) =
     [QueueGet, QueueAddRateLimited ''a'', HandleError None, QueueDone ''a'', QueueGet]"
    using s1 q
      worker_forget_or_requeue [where pre="[]" and sync=requeueSync and key="''a''"
        and requeue=True and err=None and effs="[]" and rest="[(''b'', True)]"
        and splitKey=SplitMetaNamespaceKey and c=exampleController and gets="[]"]
    by (simp del: workerWith.simps)
  have r2: "snd (worker SplitMetaNamespaceKey exampleController [(''p'', False), (''b'', True)]) =
     [QueueGet, Log Info ''Create policy'', Log Info ''Finished syncing policy'',
      QueueForget ''p'', QueueDone ''p'', QueueGet]"
    using s2 q
      worker_forget_or_requeue [where pre="[]"
        and sync="syncItem SplitMetaNamespaceKey exampleController" and key="''p''"
        and requeue=False and err=None
        and effs="[Log Info ''Create policy'', Log Info ''Finished syncing policy'']"
        and rest="[(''b'', True)]" and splitKey=SplitMetaNamespaceKey
        and c=exampleController and gets="[(''p'', False), (''b'', True)]"]
    by (simp del: workerWith.simps)
  have r3: "snd (worker SplitMetaNamespaceKey exampleController [(''a/b/c'', False)]) =
     [QueueGet, Log Info ''Finished syncing policy'', QueueAddRateLimited ''a/b/c'',
      HandleError (Some (PlainError ''unexpected key format: a/b/c'')), QueueDone ''a/b/c'',
      QueueGet]"
    using s3 e
      worker_forget_or_requeue [where pre="[]"
        and sync="syncItem SplitMetaNamespaceKey exampleController" and key="''a/b/c''"
        and requeue=False and err="Some (PlainError ''unexpected key format: a/b/c'')"
        and effs="[Log Info ''Finished syncing policy'']"
        and rest="[]" and splitKey=SplitMetaNamespaceKey
        and c=exampleController and gets="[(''a/b/c'', False)]"]
    by (simp del: workerWith.simps)
  show ?thesis using r1 r2 r3 by blast
qed


subsection \<open>Event handlers\<close>

text \<open>
  C4. The handler of deletion events is \<^verbatim>\<open>enqueue\<close> itself: no change filter stands
  before it. When the key function yields a key, the one call on the queue is
  \<^verbatim>\<open>AddAfter\<close> with that key and the delay \<^verbatim>\<open>policyDeletionGracePeriod\<close>, which is
  five seconds and so positive; \<^verbatim>\<open>Add\<close>, the immediate path, is not called.
\<close>

theorem delete_enqueues_after_grace_period:
  "handleEvent KeyFunc (OnDelete ob) = enqueue KeyFunc ob
   \<and> (snd (KeyFunc ob) = None \<longrightarrow>
        handleEvent KeyFunc (OnDelete ob) =
          [QueueAddAfter (fst (KeyFunc ob)) policyDeletionGracePeriod])
   \<and> policyDeletionGracePeriod = 5 * Second \<and> Second = 1000000000
   \<and> 0 < policyDeletionGracePeriod
   \<and> QueueAdd k \<notin> set (handleEvent KeyFunc (OnDelete ob))"
proof -
  have "QueueAdd k \<notin> set (handleEvent KeyFunc (OnDelete ob))"
    using handleEvent_calls [of "QueueAdd k" KeyFunc "OnDelete ob"] by auto
  then show ?thesis
    using enqueue_ok [of KeyFunc ob]
    by (simp add: DeleteFunc_def policyDeletionGracePeriod_def Second_def)
qed

theorem delete_enqueues_after_grace_period_witness:
  "snd (KeyFuncModel (PolicyObj examplePolicy)) = None
   \<and> handleEvent KeyFuncModel (OnDelete (PolicyObj examplePolicy)) =
       [QueueAddAfter ''p'' 5000000000]
   \<and> handleEvent KeyFuncModel
         (OnDelete (DeletedFinalStateUnknown ''p'' (PolicyObj examplePolicy))) =
       [QueueAddAfter ''p'' 5000000000]"
proof -
  let ?marker = "DeletedFinalStateUnknown ''p'' (PolicyObj examplePolicy)"
  have k1: "KeyFuncModel (PolicyObj examplePolicy) = (''p'', None)"
    by (simp add: examplePolicy_def)
  have k2: "KeyFuncModel ?marker = (''p'', None)"
    by simp
  have "snd (KeyFuncModel (PolicyObj examplePolicy)) = None \<longrightarrow>
      handleEvent KeyFuncModel (OnDelete (PolicyObj examplePolicy)) =
        [QueueAddAfter (fst (KeyFuncModel (PolicyObj examplePolicy))) policyDeletionGracePeriod]"
    using delete_enqueues_after_grace_period [of KeyFuncModel "PolicyObj examplePolicy" "''p''"]
    by blast
  then have r1: "handleEvent KeyFuncModel (OnDelete (PolicyObj examplePolicy)) =
      [QueueAddAfter ''p'' 5000000000]"
    by (simp only: k1 fst_conv snd_conv gracePeriod_value simp_thms)
  have "snd (KeyFuncModel ?marker) = None \<longrightarrow>
      handleEvent KeyFuncModel (OnDelete ?marker) =
        [QueueAddAfter (fst (KeyFuncModel ?marker)) policyDeletionGracePeriod]"
    using delete_enqueues_after_grace_period [of KeyFuncModel ?marker "''p''"]
    by blast
  then have r2: "handleEvent KeyFuncModel (OnDelete ?marker) = [QueueAddAfter ''p'' 5000000000]"
    by (simp only: k2 fst_conv snd_conv gracePeriod_value simp_thms)
  have "snd (KeyFuncModel (PolicyObj examplePolicy)) = None"
    by (simp only: k1 snd_conv)
  then show ?thesis using r1 r2 by blast
qed

text \<open>
  C7. When the key function fails on an object, \<^verbatim>\<open>enqueue\<close> hands the error to
  \<^verbatim>\<open>runtime.HandleError\<close> and returns: it makes no call on the queue, so nothing is
  scheduled and nothing is retried.
\<close>

theorem enqueue_key_failure_dropped:
  "snd (KeyFunc ob) = Some err \<Longrightarrow>
   enqueue KeyFunc ob =
     [HandleError (Some (PlainError (''couldn't get key for object: '' @ errorString err)))]
   \<and> filter isQueueCall (enqueue KeyFunc ob) = []
   \<and> filter isQueueCall (handleEvent KeyFunc (OnDelete ob)) = []"
  by (simp add: enqueue_failed DeleteFunc_def)

theorem enqueue_key_failure_dropped_witness:
  "snd (KeyFuncModel (OtherObj ''Pod'' :: (string list, string) obj)) =
     Some (PlainError ''object has no meta'')
   \<and> enqueue KeyFuncModel (OtherObj ''Pod'' :: (string list, string) obj) =
       [HandleError (Some (PlainError ''couldn't get key for object: object has no meta''))]
   \<and> filter isQueueCall (enqueue KeyFuncModel (OtherObj ''Pod'' :: (string list, string) obj))
       = []"
proof -
  have k: "snd (KeyFuncModel (OtherObj ''Pod'' :: (string list, string) obj)) =
      Some (PlainError ''object has no meta'')"
    by simp
  show ?thesis
    using k enqueue_key_failure_dropped
      [of KeyFuncModel "OtherObj ''Pod'' :: (string list, string) obj"
          "PlainError ''object has no meta''"]
    by simp
qed

text \<open>
  C8, as stated: an update that leaves the specification unchanged is filtered out and
  not enqueued. This fails when the UID changed: the filter answers true and the key is
  enqueued although the two specifications are equal.
\<close>

theorem update_same_spec_new_uid_enqueued:
  "Spec (examplePolicy\<lparr>UID := ''u2''\<rparr>) = Spec examplePolicy
   \<and> needsUpdate examplePolicy (examplePolicy\<lparr>UID := ''u2''\<rparr>)
   \<and> handleEvent KeyFuncModel
         (OnUpdate (PolicyObj examplePolicy) (PolicyObj (examplePolicy\<lparr>UID := ''u2''\<rparr>))) =
       [Log Info ''Update enqueue'', QueueAddAfter ''p'' 5000000000]"
  by (simp add: UpdateFunc_def needsUpdate_def enqueue_def examplePolicy_def
      policyDeletionGracePeriod_def Second_def)

text \<open>
  C8, amended: an update between two policies that leaves both the UID and the
  specification unchanged is filtered out, and the handler makes no call at all: nothing is
  enqueued.
\<close>

theorem update_unchanged_not_enqueued:
  "asPolicy oldObj = Some old \<Longrightarrow> asPolicy newObj = Some new \<Longrightarrow>
   UID old = UID new \<Longrightarrow> Spec old = Spec new \<Longrightarrow>
   \<not> needsUpdate old new \<and> handleEvent KeyFunc (OnUpdate oldObj newObj) = []"
  by (simp add: UpdateFunc_def needsUpdate_def DeepEqual_def)

theorem update_unchanged_not_enqueued_witness:
  "UID (examplePolicy\<lparr>ResourceVersion := ''2'', Status := ''idle''\<rparr>) = UID examplePolicy
   \<and> Spec (examplePolicy\<lparr>ResourceVersion := ''2'', Status := ''idle''\<rparr>) = Spec examplePolicy
   \<and> \<not> needsUpdate examplePolicy (examplePolicy\<lparr>ResourceVersion := ''2'', Status := ''idle''\<rparr>)
   \<and> handleEvent KeyFuncModel
         (OnUpdate (PolicyObj examplePolicy)
            (PolicyObj (examplePolicy\<lparr>ResourceVersion := ''2'', Status := ''idle''\<rparr>))) = []"
  using update_unchanged_not_enqueued
    [of "PolicyObj examplePolicy" examplePolicy
        "PolicyObj (examplePolicy\<lparr>ResourceVersion := ''2'', Status := ''idle''\<rparr>)"
        "examplePolicy\<lparr>ResourceVersion := ''2'', Status := ''idle''\<rparr>" KeyFuncModel]
  by simp

text \<open>
  C9. Whatever the event, every call by which its handler puts a key on the queue is
  \<^verbatim>\<open>AddAfter\<close> with the delay \<^verbatim>\<open>policyDeletionGracePeriod\<close> of five seconds. The
  immediate \<^verbatim>\<open>Add\<close> is called nowhere: not by a handler, not by a worker, not by
  \<^verbatim>\<open>Run\<close>.
\<close>

theorem enqueue_only_by_AddAfter:
  "(\<forall>e\<in>set (handleEvent KeyFunc ev).
      isEnqueueCall e \<longrightarrow> (\<exists>k. e = QueueAddAfter k policyDeletionGracePeriod))
   \<and> policyDeletionGracePeriod = 5 * Second \<and> Second = 1000000000
   \<and> QueueAdd k \<notin> set (handleEvent KeyFunc ev)
   \<and> QueueAdd k \<notin> set (snd (worker splitKey c gets))
   \<and> QueueAdd k \<notin> set (snd (Run workers waitAnswer stopFires))"
proof -
  have a: "\<forall>e\<in>set (handleEvent KeyFunc ev).
      isEnqueueCall e \<longrightarrow> (\<exists>k. e = QueueAddAfter k policyDeletionGracePeriod)"
    using handleEvent_calls [of _ KeyFunc ev] by fastforce
  have b: "QueueAdd k \<notin> set (handleEvent KeyFunc ev)"
    using handleEvent_calls [of "QueueAdd k" KeyFunc ev] by auto
  have "\<And>key. QueueAdd k \<notin> set (snd (syncItem splitKey c key))"
    using syncItem_logs_only [of "QueueAdd k" splitKey c] by auto
  then have w: "QueueAdd k \<notin> set (snd (worker splitKey c gets))"
    unfolding worker_def by (rule workerWith_no_Add)
  have r: "QueueAdd k \<notin> set (snd (Run workers waitAnswer stopFires))"
    by (cases waitAnswer) (simp_all add: Run_def Let_def startWorkers_replicate)
  show ?thesis
    using a b w r by (simp add: policyDeletionGracePeriod_def Second_def)
qed

theorem enqueue_only_by_AddAfter_witness:
  "handleEvent KeyFuncModel
     (OnUpdate (PolicyObj examplePolicy) (PolicyObj (examplePolicy\<lparr>Spec := []\<rparr>))) =
     [Log Info ''Update enqueue'', QueueAddAfter ''p'' policyDeletionGracePeriod]
   \<and> isEnqueueCall (QueueAddAfter ''p'' policyDeletionGracePeriod)
   \<and> (\<exists>k. QueueAddAfter ''p'' policyDeletionGracePeriod =
            QueueAddAfter k policyDeletionGracePeriod)
   \<and> policyDeletionGracePeriod = 5000000000"
proof -
  have h: "handleEvent KeyFuncModel
     (OnUpdate (PolicyObj examplePolicy) (PolicyObj (examplePolicy\<lparr>Spec := []\<rparr>))) =
     [Log Info ''Update enqueue'', QueueAddAfter ''p'' policyDeletionGracePeriod]"
    by (simp add: UpdateFunc_def needsUpdate_def DeepEqual_def enqueue_def examplePolicy_def)
  show ?thesis
    using h enqueue_only_by_AddAfter [of KeyFuncModel
        "OnUpdate (PolicyObj examplePolicy) (PolicyObj (examplePolicy\<lparr>Spec := []\<rparr>))"
        "''p''" SplitMetaNamespaceKey exampleController "[]" 0 "Some True" True]
    by simp
qed

subsection \<open>Run\<close>

text \<open>
  C6. \<^verbatim>\<open>Run\<close> waits for the cache to sync. When the wait returns, with success or
  with failure, \<^verbatim>\<open>Run\<close> starts one goroutine per worker and then receives from the
  stop channel; a failed wait only adds an error log before that. When the stop channel
  fires \<^verbatim>\<open>Run\<close> logs, shuts the queue down and returns; when it never fires \<^verbatim>\<open>Run\<close>
  does not return.
\<close>

theorem Run_continues_after_failed_sync:
  "snd (Run workers (Some ok) stopFires) =
     [Log Info ''Starting project controller'', WaitForCacheSync]
     @ (if ok then [] else [Log Error ''Failed to wait for project caches to sync''])
     @ replicate (nat workers) (GoWaitUntilWorker Second)
     @ [ReceiveStop]
     @ (if stopFires
        then [Log Info ''Shutting down project controller'', QueueShutDown, HandleCrash]
        else [])
   \<and> fst (Run workers (Some ok) stopFires) = stopFires"
  by (simp add: Run_def Let_def startWorkers_replicate)

theorem Run_continues_after_failed_sync_witness:
  "Run 2 (Some False) True =
     (True,
      [Log Info ''Starting project controller'', WaitForCacheSync,
       Log Error ''Failed to wait for project caches to sync'',
       GoWaitUntilWorker 1000000000, GoWaitUntilWorker 1000000000, ReceiveStop,
       Log Info ''Shutting down project controller'', QueueShutDown, HandleCrash])
   \<and> Run 2 (Some False) False =
     (False,
      [Log Info ''Starting project controller'', WaitForCacheSync,
       Log Error ''Failed to wait for project caches to sync'',
       GoWaitUntilWorker 1000000000, GoWaitUntilWorker 1000000000, ReceiveStop])"
  using Run_continues_after_failed_sync [of 2 False True]
    Run_continues_after_failed_sync [of 2 False False]
  by (simp add: prod_eq_iff Second_def numeral_2_eq_2)

end
